theory Spec2Isabelle
  imports Complex_Main "HOL-Library.AList"
begin

section \<open>Python values, exceptions and strings\<close>

text \<open>
  The development embeds \<^verbatim>\<open>evaluate_response\<close> of \<^verbatim>\<open>Clip3/backend/routes.py\<close>.
  A Python \<^verbatim>\<open>str\<close> is the list of its code points, so that a character beyond ASCII (the
  Kelvin sign, a lone surrogate, an emoji) is one element. \<open>ascii\<close> turns a literal of
  ASCII characters into such a string.
\<close>

type_synonym pystr = "int list"

definition ascii :: "string \<Rightarrow> pystr" where
  "ascii s = map of_char s"

text \<open>
  An exception is its class and the text \<^verbatim>\<open>str(e)\<close> gives. Every class here is a subclass
  of \<^verbatim>\<open>Exception\<close>. \<^verbatim>\<open>json.JSONDecodeError\<close> and \<^verbatim>\<open>UnicodeEncodeError\<close> are subclasses of
  \<^verbatim>\<open>ValueError\<close>; \<open>OtherValueError\<close> stands for any further subclass of it and
  \<open>OtherException\<close> for any class that is none (a timeout, a network or provider error,
  \<^verbatim>\<open>RecursionError\<close>, ...), each with its name.
\<close>

datatype exn_class =
    ValueError
  | JSONDecodeError
  | UnicodeEncodeError
  | TypeError
  | IndexError
  | KeyError
  | OtherValueError pystr
  | OtherException pystr

datatype exn = Exn (exn_class: exn_class) (exn_text: pystr)

text \<open>\<^verbatim>\<open>type(e).__name__\<close>.\<close>

fun class_name :: "exn_class \<Rightarrow> pystr" where
  "class_name ValueError = ascii ''ValueError''"
| "class_name JSONDecodeError = ascii ''JSONDecodeError''"
| "class_name UnicodeEncodeError = ascii ''UnicodeEncodeError''"
| "class_name TypeError = ascii ''TypeError''"
| "class_name IndexError = ascii ''IndexError''"
| "class_name KeyError = ascii ''KeyError''"
| "class_name (OtherValueError name) = name"
| "class_name (OtherException name) = name"

text \<open>What \<^verbatim>\<open>except (json.JSONDecodeError, ValueError)\<close> catches.\<close>

fun is_ValueError :: "exn \<Rightarrow> bool" where
  "is_ValueError (Exn ValueError m) = True"
| "is_ValueError (Exn JSONDecodeError m) = True"
| "is_ValueError (Exn UnicodeEncodeError m) = True"
| "is_ValueError (Exn (OtherValueError name) m) = True"
| "is_ValueError e = False"

text \<open>
  The values \<^verbatim>\<open>json.loads\<close> produces, and the dictionaries the function returns. A
  \<^verbatim>\<open>dict\<close> with string keys is an association list in insertion order; a float keeps
  its literal, since nothing here computes with it.
\<close>

datatype pyval =
    PNone
  | PBool bool
  | PInt int
  | PFloat pystr
  | PStr pystr
  | PList "pyval list"
  | PDict "(pystr \<times> pyval) list"

text \<open>\<^verbatim>\<open>type(v).__name__\<close>, as the messages of \<^verbatim>\<open>TypeError\<close> name it.\<close>

fun type_name :: "pyval \<Rightarrow> pystr" where
  "type_name PNone = ascii ''NoneType''"
| "type_name (PBool b) = ascii ''bool''"
| "type_name (PInt i) = ascii ''int''"
| "type_name (PFloat f) = ascii ''float''"
| "type_name (PStr s) = ascii ''str''"
| "type_name (PList xs) = ascii ''list''"
| "type_name (PDict d) = ascii ''dict''"

text \<open>\<^verbatim>\<open>str.strip\<close>: the characters for which \<^verbatim>\<open>str.isspace\<close> holds are removed from both
  ends.\<close>

definition is_space :: "int \<Rightarrow> bool" where
  "is_space c =
     (c \<in> set [0x09, 0x0A, 0x0B, 0x0C, 0x0D, 0x1C, 0x1D, 0x1E, 0x1F, 0x20, 0x85, 0xA0,
                0x1680, 0x2000, 0x2001, 0x2002, 0x2003, 0x2004, 0x2005, 0x2006, 0x2007,
                0x2008, 0x2009, 0x200A, 0x2028, 0x2029, 0x202F, 0x205F, 0x3000])"

definition strip :: "pystr \<Rightarrow> pystr" where
  "strip s = rev (dropWhile is_space (rev (dropWhile is_space s)))"

text \<open>\<^verbatim>\<open>sub in text\<close> on two strings: \<open>sub\<close> occurs in \<open>text\<close> at some position.\<close>

fun str_contains :: "pystr \<Rightarrow> pystr \<Rightarrow> bool" where
  "str_contains sub [] = (sub = [])"
| "str_contains sub (c # cs) = (take (length sub) (c # cs) = sub \<or> str_contains sub cs)"

text \<open>\<^verbatim>\<open>field in data\<close> for a string \<open>field\<close>: key membership in a dict, element equality
  in a list, substring in a string, and \<^verbatim>\<open>TypeError\<close> on a value that is not iterable.\<close>

fun py_in :: "pystr \<Rightarrow> pyval \<Rightarrow> exn + bool" where
  "py_in field (PDict d) = Inr (field \<in> set (map fst d))"
| "py_in field (PList xs) = Inr (PStr field \<in> set xs)"
| "py_in field (PStr s) = Inr (str_contains field s)"
| "py_in field v =
     Inl (Exn TypeError
            (ascii ''argument of type '' @ [0x27] @ type_name v @ [0x27] @ ascii '' is not iterable''))"

text \<open>\<^verbatim>\<open>all(field in data for field in fields)\<close>: stops at the first \<^verbatim>\<open>False\<close>, and an
  exception of a membership test leaves the generator.\<close>

fun all_in :: "pystr list \<Rightarrow> pyval \<Rightarrow> exn + bool" where
  "all_in [] data = Inr True"
| "all_in (field # fields) data =
     (case py_in field data of
        Inl e \<Rightarrow> Inl e
      | Inr False \<Rightarrow> Inr False
      | Inr True \<Rightarrow> all_in fields data)"

text \<open>\<^verbatim>\<open>data[key]\<close> with a string key: only a dict can be read this way. The text of a
  \<^verbatim>\<open>KeyError\<close> is the \<^verbatim>\<open>repr\<close> of the key, written here for a key of plain ASCII letters.\<close>

fun py_getitem :: "pyval \<Rightarrow> pystr \<Rightarrow> exn + pyval" where
  "py_getitem (PDict d) key =
     (case map_of d key of
        None \<Rightarrow> Inl (Exn KeyError ([0x27] @ key @ [0x27]))
      | Some v \<Rightarrow> Inr v)"
| "py_getitem (PList xs) key =
     Inl (Exn TypeError (ascii ''list indices must be integers or slices, not str''))"
| "py_getitem (PStr s) key =
     Inl (Exn TypeError (ascii ''string indices must be integers, not '' @ [0x27] @ ascii ''str'' @ [0x27]))"
| "py_getitem v key =
     Inl (Exn TypeError ([0x27] @ type_name v @ [0x27] @ ascii '' object is not subscriptable''))"

text \<open>\<^verbatim>\<open>data[key] = value\<close> with a string key.\<close>

fun py_setitem :: "pyval \<Rightarrow> pystr \<Rightarrow> pyval \<Rightarrow> exn + pyval" where
  "py_setitem (PDict d) key v = Inr (PDict (AList.update key v d))"
| "py_setitem (PList xs) key v =
     Inl (Exn TypeError (ascii ''list indices must be integers or slices, not str''))"
| "py_setitem data key v =
     Inl (Exn TypeError
            ([0x27] @ type_name data @ [0x27] @ ascii '' object does not support item assignment''))"

text \<open>\<^verbatim>\<open>isinstance(v, int)\<close> holds of an int and of a bool, since \<^verbatim>\<open>bool\<close> is a subclass
  of \<^verbatim>\<open>int\<close>; \<open>int_value\<close> is the number such a value compares as.\<close>

fun isinstance_int :: "pyval \<Rightarrow> bool" where
  "isinstance_int (PInt i) = True"
| "isinstance_int (PBool b) = True"
| "isinstance_int v = False"

fun isinstance_bool :: "pyval \<Rightarrow> bool" where
  "isinstance_bool (PBool b) = True"
| "isinstance_bool v = False"

fun int_value :: "pyval \<Rightarrow> int" where
  "int_value (PInt i) = i"
| "int_value (PBool b) = (if b then 1 else 0)"
| "int_value v = 0"

section \<open>The Python runtime and the remote judge\<close>

text \<open>
  What the function uses and the repository does not define: \<^verbatim>\<open>str.lower\<close>,
  \<^verbatim>\<open>json.loads\<close> (an exception or a value), the built-in \<^verbatim>\<open>repr\<close>, and the stream
  \<^verbatim>\<open>sys.stdout\<close> that \<^verbatim>\<open>print\<close> writes to: \<open>stdout rt line\<close> is \<open>None\<close> when the line is
  written and the exception otherwise (a \<^verbatim>\<open>UnicodeEncodeError\<close> when the stream's
  encoding has no code for a character of the line). They are parameters of the model.
\<close>

record runtime =
  lower :: "pystr \<Rightarrow> pystr"
  json_loads :: "pystr \<Rightarrow> exn + pyval"
  repr :: "pyval \<Rightarrow> pystr"
  stdout :: "pystr \<Rightarrow> exn option"

text \<open>\<^verbatim>\<open>print(line)\<close>.\<close>

definition py_print :: "runtime \<Rightarrow> pystr \<Rightarrow> exn + unit" where
  "py_print rt line = (case stdout rt line of None \<Rightarrow> Inr () | Some e \<Rightarrow> Inl e)"

text \<open>One statement after another: an exception of the first ends the sequence.\<close>

definition and_then :: "exn + 'a \<Rightarrow> ('a \<Rightarrow> exn + 'b) \<Rightarrow> exn + 'b" where
  "and_then r f = (case r of Inl e \<Rightarrow> Inl e | Inr x \<Rightarrow> f x)"

text \<open>A value inside an f-string, \<^verbatim>\<open>f"{v}"\<close>: a string stands as it is, and for the other
  values here \<^verbatim>\<open>str\<close> is \<^verbatim>\<open>repr\<close>. \<open>format_text\<close> is the same for the message content,
  which is a string or \<^verbatim>\<open>None\<close>.\<close>

fun py_str :: "runtime \<Rightarrow> pyval \<Rightarrow> pystr" where
  "py_str rt (PStr s) = s"
| "py_str rt v = repr rt v"

fun format_text :: "pystr option \<Rightarrow> pystr" where
  "format_text None = ascii ''None''"
| "format_text (Some s) = s"

text \<open>
  \<^verbatim>\<open>openai.ChatCompletion.create\<close> is outside the repository. A request carries the
  arguments of the call; a response carries what the function reads from it: the
  message content of each choice (\<open>None\<close> for Python's \<^verbatim>\<open>None\<close>), \<^verbatim>\<open>usage.total_tokens\<close>
  (a Python int), and the text \<^verbatim>\<open>str(response)\<close> gives.
\<close>

record message =
  role :: pystr
  content :: pystr

record request =
  model :: pystr
  messages :: "message list"
  max_tokens :: nat
  temperature :: rat

record response =
  choices :: "pystr option list"
  usage_total_tokens :: int
  as_text :: pystr

text \<open>
  The world outside the function: \<open>judge w k req\<close> is what the \<open>k\<close>-th call of the
  remote service answers to the request \<open>req\<close> (a response, or a raised exception), and
  \<open>calls w\<close> lists the requests sent so far.
\<close>

record world =
  judge :: "nat \<Rightarrow> request \<Rightarrow> exn + response"
  calls :: "request list"

definition ChatCompletion_create :: "request \<Rightarrow> world \<Rightarrow> (exn + response) \<times> world" where
  "ChatCompletion_create req w =
     (judge w (length (calls w)) req, w\<lparr>calls := calls w @ [req]\<rparr>)"

section \<open>The evaluator\<close>

definition fake_patterns :: "pystr list" where
  "fake_patterns =
     map ascii
       [''letort'', ''goldblueRedgreen'', ''fakerouter'', ''xyz corp'', ''acme router'',
        ''test device'', ''sample router'', ''example switch'', ''demo router'']"

text \<open>The three fixed parts of the f-string \<^verbatim>\<open>evaluation_prompt\<close>, around the two
  interpolated arguments.\<close>

definition prompt_head :: pystr where
  \<open>prompt_head =
     ascii ''\<newline>'' @
     ascii ''Please evaluate the following AI response for quality and accuracy.\<newline>'' @
     ascii ''\<newline>'' @
     ascii ''User's Original Question: "''\<close>

definition prompt_middle :: pystr where
  \<open>prompt_middle =
     ascii ''"\<newline>'' @
     ascii ''\<newline>'' @
     ascii ''AI Response to Evaluate: "''\<close>

definition prompt_tail :: pystr where
  \<open>prompt_tail =
     ascii ''"\<newline>'' @
     ascii ''\<newline>'' @
     ascii ''Please provide your evaluation as a JSON object with the following structure:\<newline>'' @
     ascii ''{\<newline>'' @
     ascii ''    "score": <integer from 1-5, where 1=poor, 5=excellent>,\<newline>'' @
     ascii ''    "rationale": "<brief explanation of the score>",\<newline>'' @
     ascii ''    "hallucination_flag": <boolean, true if response contains factual errors or made-up information>\<newline>'' @
     ascii ''}\<newline>'' @
     ascii ''\<newline>'' @
     ascii ''Evaluation criteria:\<newline>'' @
     ascii ''- Score 5: Excellent - Accurate, helpful, well-structured, directly addresses the question\<newline>'' @
     ascii ''- Score 4: Good - Mostly accurate and helpful with minor issues\<newline>'' @
     ascii ''- Score 3: Average - Generally correct but may lack detail or have minor inaccuracies\<newline>'' @
     ascii ''- Score 2: Below Average - Partially helpful but contains errors or is unclear\<newline>'' @
     ascii ''- Score 1: Poor - Unhelpful, contains significant errors, or doesn't address the question\<newline>'' @
     ascii ''\<newline>'' @
     ascii ''CRITICAL: Set hallucination_flag to TRUE if the response contains ANY of the following:\<newline>'' @
     ascii ''- Made-up product names, models, or brands that don't exist\<newline>'' @
     ascii ''- False factual claims about real people, places, or events\<newline>'' @
     ascii ''- Fictional technical specifications presented as real\<newline>'' @
     ascii ''- Non-existent companies, organizations, or services\<newline>'' @
     ascii ''- Invented historical dates, statistics, or scientific facts\<newline>'' @
     ascii ''- Made-up quotes, references, or citations\<newline>'' @
     ascii ''- Specific technical details about products that don't exist\<newline>'' @
     ascii ''\<newline>'' @
     [0x26A0, 0xFE0F] @ ascii '' IMPORTANT: Any router/switch model containing "Letort" is FAKE and should be flagged as hallucination.\<newline>'' @
     ascii ''\<newline>'' @
     ascii ''Examples of DEFINITE hallucinations to flag:\<newline>'' @
     ascii ''- "Letort 9000", "Letort 8000", "Letort 7000", or ANY "Letort" device\<newline>'' @
     ascii ''- "GoldBlueRedGreen Router" or similar made-up color combinations\<newline>'' @
     ascii ''- "FakeRouter9000" or devices with "Fake" in the name\<newline>'' @
     ascii ''- Any device model with obviously fake naming patterns\<newline>'' @
     ascii ''\<newline>'' @
     ascii ''Real networking equipment brands include: Cisco, Juniper, Arista, HPE, Dell, Fortinet, Palo Alto Networks, Ubiquiti, Netgear, D-Link, TP-Link, Huawei, ZTE, Nokia, Ericsson.\<newline>'' @
     ascii ''\<newline>'' @
     ascii ''EVALUATION RULE: If a user asks about configuring ANY "Letort" device, this is a DEFINITE hallucination test case. The response should be flagged as hallucination_flag=true with a low score (1-2) and rationale explaining that the device doesn't exist.\<newline>'' @
     ascii ''\<newline>'' @
     ascii ''Be especially vigilant about:\<newline>'' @
     ascii ''1. Brand/model names that sound plausible but may not exist\<newline>'' @
     ascii ''2. Technical instructions for potentially non-existent devices\<newline>'' @
     ascii ''3. Specific factual claims that can be verified as false\<newline>'' @
     ascii ''4. Overly specific details that seem made up\<newline>'' @
     ascii ''\<newline>'' @
     ascii ''Focus on accuracy, helpfulness, and whether the response contains any hallucinations (made-up facts, false information, or unsupported claims).\<newline>''\<close>

definition evaluation_prompt :: "pystr \<Rightarrow> pystr \<Rightarrow> pystr" where
  "evaluation_prompt user_prompt ai_response =
     prompt_head @ user_prompt @ prompt_middle @ ai_response @ prompt_tail"

definition evaluation_request :: "pystr \<Rightarrow> pystr \<Rightarrow> request" where
  "evaluation_request user_prompt ai_response =
     \<lparr>model = ascii ''gpt-3.5-turbo'',
      messages =
        [\<lparr>role = ascii ''system'',
          content = ascii ''You are an expert evaluator of AI responses. Provide objective, fair evaluations in the requested JSON format.''\<rparr>,
         \<lparr>role = ascii ''user'', content = evaluation_prompt user_prompt ai_response\<rparr>],
      max_tokens = 300,
      temperature = 3 / 10\<rparr>"

subsection \<open>The lines the function prints\<close>

text \<open>Each is the f-string of one \<^verbatim>\<open>print\<close> call, named by what it reports; the line of
  the source is given with it.\<close>

definition precheck_line :: "pystr \<Rightarrow> pystr" where
  \<comment> \<open>line 69\<close>
  "precheck_line pattern =
     [0x1F6A8] @ ascii '' PRE-CHECK HALLUCINATION DETECTED: Found '' @ [0x27] @ pattern @ [0x27] @
     ascii '' in text''"

definition start_line :: "pystr \<Rightarrow> pystr" where
  \<comment> \<open>line 128\<close>
  "start_line user_prompt =
     ascii ''Starting evaluation for prompt: '' @ take 50 user_prompt @ ascii ''...''"

definition response_line :: "pystr \<Rightarrow> pystr" where
  \<comment> \<open>line 129\<close>
  "response_line ai_response =
     ascii ''Response to evaluate: '' @ take 100 ai_response @ ascii ''...''"

definition raw_response_line :: "response \<Rightarrow> pystr" where
  \<comment> \<open>line 142\<close>
  "raw_response_line resp = ascii ''Raw OpenAI response: '' @ as_text resp"

definition text_line :: "pystr option \<Rightarrow> pystr" where
  \<comment> \<open>line 147\<close>
  "text_line evaluation_text = ascii ''Evaluation text received: '' @ format_text evaluation_text"

definition tokens_line :: "runtime \<Rightarrow> int \<Rightarrow> pystr" where
  \<comment> \<open>line 148\<close>
  "tokens_line rt evaluation_tokens =
     ascii ''Evaluation tokens used: '' @ py_str rt (PInt evaluation_tokens)"

definition parsed_line :: "runtime \<Rightarrow> pyval \<Rightarrow> pystr" where
  \<comment> \<open>line 172\<close>
  "parsed_line rt evaluation_data =
     ascii ''Successfully parsed evaluation: '' @ py_str rt evaluation_data"

definition hallucination_line :: "runtime \<Rightarrow> pyval \<Rightarrow> pystr" where
  \<comment> \<open>line 176\<close>
  "hallucination_line rt rationale =
     [0x1F6A8] @ ascii '' HALLUCINATION DETECTED: '' @ py_str rt rationale"

definition high_score_line :: "runtime \<Rightarrow> pyval \<Rightarrow> pyval \<Rightarrow> pystr" where
  \<comment> \<open>line 180\<close>
  "high_score_line rt score flag =
     [0x26A0, 0xFE0F] @ ascii ''  HIGH SCORE + SUSPICIOUS PATTERN: Score='' @ py_str rt score @
     ascii '', Hallucination='' @ py_str rt flag"

definition snippet_line :: "pystr \<Rightarrow> pystr" where
  \<comment> \<open>line 181\<close>
  "snippet_line ai_response =
     ascii ''   Response snippet: '' @ take 100 ai_response @ ascii ''...''"

definition parse_error_line :: "exn \<Rightarrow> pystr" where
  \<comment> \<open>line 186\<close>
  "parse_error_line e = ascii ''Error parsing evaluation response: '' @ exn_text e"

definition raw_text_line :: "pystr option \<Rightarrow> pystr" where
  \<comment> \<open>line 187\<close>
  "raw_text_line evaluation_text =
     ascii ''Raw evaluation text: '' @ [0x27] @ format_text evaluation_text @ [0x27]"

definition error_line :: "exn \<Rightarrow> pystr" where
  \<comment> \<open>line 197\<close>
  "error_line e = ascii ''Error during evaluation: '' @ exn_text e"

definition details_line :: "exn \<Rightarrow> pystr" where
  \<comment> \<open>line 198\<close>
  "details_line e =
     ascii ''Full error details: '' @ class_name (exn_class e) @ ascii '': '' @ exn_text e"

subsection \<open>The pre-check\<close>

text \<open>The loop over \<^verbatim>\<open>fake_patterns\<close> (lines 65 to 75): the first pattern whose lower-cased
  form occurs in the lower-cased \<^verbatim>\<open>user_prompt + " " + ai_response\<close>, if there is one.\<close>

definition combined_text :: "runtime \<Rightarrow> pystr \<Rightarrow> pystr \<Rightarrow> pystr" where
  "combined_text rt user_prompt ai_response = lower rt (user_prompt @ ascii '' '' @ ai_response)"

definition first_fake_pattern :: "runtime \<Rightarrow> pystr \<Rightarrow> pystr \<Rightarrow> pystr option" where
  "first_fake_pattern rt user_prompt ai_response =
     find (\<lambda>pattern. str_contains (lower rt pattern) (combined_text rt user_prompt ai_response))
       fake_patterns"

definition precheck_verdict :: "pystr \<Rightarrow> pyval" where
  \<open>precheck_verdict pattern =
     PDict
      [(ascii ''score'', PInt 1),
       (ascii ''rationale'',
          PStr (ascii ''Response contains references to non-existent device '' @ [0x27] @ pattern @
                [0x27] @
                ascii ''. This appears to be a fabricated product name that doesn't exist in reality.'')),
       (ascii ''hallucination_flag'', PBool True),
       (ascii ''tokens'', PInt 0)]\<close>

subsection \<open>Parsing the judge's text\<close>

definition parse_failure_verdict :: "int \<Rightarrow> pyval" where
  "parse_failure_verdict evaluation_tokens =
     PDict
      [(ascii ''score'', PInt 3),
       (ascii ''rationale'', PStr (ascii ''Evaluation parsing failed - assigned neutral score'')),
       (ascii ''hallucination_flag'', PBool False),
       (ascii ''tokens'', PInt evaluation_tokens)]"

definition unavailable_verdict :: pyval where
  "unavailable_verdict =
     PDict
      [(ascii ''score'', PInt 3),
       (ascii ''rationale'', PStr (ascii ''Evaluation service unavailable - assigned neutral score'')),
       (ascii ''hallucination_flag'', PBool False),
       (ascii ''tokens'', PInt 0)]"

definition required_fields :: "pystr list" where
  "required_fields = map ascii [''score'', ''rationale'', ''hallucination_flag'']"

text \<open>Lines 153 to 169: the text is parsed and the object validated; each \<^verbatim>\<open>raise\<close> and
  each operation that can raise is a branch. The result is \<^verbatim>\<open>evaluation_data\<close>.\<close>

definition validate_evaluation :: "runtime \<Rightarrow> pystr option \<Rightarrow> exn + pyval" where
  "validate_evaluation rt evaluation_text =
     (case evaluation_text of
        None \<Rightarrow> Inl (Exn ValueError (ascii ''Empty evaluation response from OpenAI''))
      | Some text \<Rightarrow>
          if text = [] \<or> strip text = []
          then Inl (Exn ValueError (ascii ''Empty evaluation response from OpenAI''))
          else
            and_then (json_loads rt text) (\<lambda>evaluation_data.
            and_then (all_in required_fields evaluation_data) (\<lambda>present.
              if \<not> present
              then Inl (Exn ValueError (ascii ''Missing required fields in evaluation response''))
              else
                and_then (py_getitem evaluation_data (ascii ''score'')) (\<lambda>score.
                  if \<not> isinstance_int score \<or> \<not> (1 \<le> int_value score \<and> int_value score \<le> 5)
                  then Inl (Exn ValueError (ascii ''Score must be an integer between 1 and 5''))
                  else
                    and_then (py_getitem evaluation_data (ascii ''hallucination_flag'')) (\<lambda>flag.
                      if \<not> isinstance_bool flag
                      then Inl (Exn ValueError (ascii ''Hallucination flag must be a boolean''))
                      else Inr evaluation_data)))))"

text \<open>Lines 171 to 183, after validation: the token count is stored, the diagnostic lines
  are printed and the object is returned. The flag is a bool and the score an instance of
  \<^verbatim>\<open>int\<close> here, validation has checked both.\<close>

definition suspicious_patterns :: "pystr list" where
  "suspicious_patterns = map ascii [''9000'', ''letort'', ''xyz corp'', ''acme'']"

definition finish_evaluation :: "runtime \<Rightarrow> pystr \<Rightarrow> pyval \<Rightarrow> int \<Rightarrow> exn + pyval" where
  "finish_evaluation rt ai_response validated evaluation_tokens =
     and_then (py_setitem validated (ascii ''tokens'') (PInt evaluation_tokens)) (\<lambda>evaluation_data.
     and_then (py_print rt (parsed_line rt evaluation_data)) (\<lambda>_.
     and_then (py_getitem evaluation_data (ascii ''hallucination_flag'')) (\<lambda>flag.
     and_then
       (if flag = PBool True
        then and_then (py_getitem evaluation_data (ascii ''rationale'')) (\<lambda>rationale.
               py_print rt (hallucination_line rt rationale))
        else Inr ()) (\<lambda>_.
     and_then (py_getitem evaluation_data (ascii ''score'')) (\<lambda>score.
     and_then
       (if 4 \<le> int_value score \<and>
           list_ex (\<lambda>pattern. str_contains pattern (lower rt ai_response)) suspicious_patterns
        then and_then (py_print rt (high_score_line rt score flag)) (\<lambda>_.
               py_print rt (snippet_line ai_response))
        else Inr ()) (\<lambda>_.
     Inr evaluation_data))))))"

text \<open>The body of the inner \<^verbatim>\<open>try\<close> (lines 153 to 183).\<close>

definition parse_evaluation :: "runtime \<Rightarrow> pystr \<Rightarrow> pystr option \<Rightarrow> int \<Rightarrow> exn + pyval" where
  "parse_evaluation rt ai_response evaluation_text evaluation_tokens =
     and_then (validate_evaluation rt evaluation_text) (\<lambda>validated.
       finish_evaluation rt ai_response validated evaluation_tokens)"

text \<open>The inner \<^verbatim>\<open>try\<close> with its handler \<^verbatim>\<open>except (json.JSONDecodeError, ValueError)\<close>
  (lines 152 to 194): another exception passes through, and so does an exception of the
  handler's own two prints. \<^verbatim>\<open>evaluation_tokens\<close> is bound before the inner \<^verbatim>\<open>try\<close>
  starts, so the handler's test \<^verbatim>\<open>'evaluation_tokens' in locals()\<close> holds whenever it
  runs.\<close>

definition parse_or_default :: "runtime \<Rightarrow> pystr \<Rightarrow> pystr option \<Rightarrow> int \<Rightarrow> exn + pyval" where
  "parse_or_default rt ai_response evaluation_text evaluation_tokens =
     (case parse_evaluation rt ai_response evaluation_text evaluation_tokens of
        Inr evaluation_data \<Rightarrow> Inr evaluation_data
      | Inl e \<Rightarrow>
          if is_ValueError e
          then and_then (py_print rt (parse_error_line e)) (\<lambda>_.
               and_then (py_print rt (raw_text_line evaluation_text)) (\<lambda>_.
               Inr (parse_failure_verdict evaluation_tokens)))
          else Inl e)"

subsection \<open>The call and the two handlers\<close>

text \<open>Lines 142 to 194, on the outcome of the call: \<^verbatim>\<open>response.choices[0]\<close> raises
  \<^verbatim>\<open>IndexError\<close> on an empty list.\<close>

definition read_response :: "runtime \<Rightarrow> pystr \<Rightarrow> exn + response \<Rightarrow> exn + pyval" where
  "read_response rt ai_response outcome =
     and_then outcome (\<lambda>resp.
     and_then (py_print rt (raw_response_line resp)) (\<lambda>_.
       case choices resp of
         [] \<Rightarrow> Inl (Exn IndexError (ascii ''list index out of range''))
       | evaluation_text # rest \<Rightarrow>
           and_then (py_print rt (text_line evaluation_text)) (\<lambda>_.
           and_then (py_print rt (tokens_line rt (usage_total_tokens resp))) (\<lambda>_.
           parse_or_default rt ai_response evaluation_text (usage_total_tokens resp)))))"

text \<open>The body of the outer \<^verbatim>\<open>try\<close> (lines 128 to 194): two lines are printed, then the
  call is made. An exception of the first two prints leaves the body before the call.\<close>

definition try_body :: "runtime \<Rightarrow> pystr \<Rightarrow> pystr \<Rightarrow> world \<Rightarrow> (exn + pyval) \<times> world" where
  "try_body rt user_prompt ai_response w =
     (case and_then (py_print rt (start_line user_prompt)) (\<lambda>_.
             py_print rt (response_line ai_response)) of
        Inl e \<Rightarrow> (Inl e, w)
      | Inr _ \<Rightarrow>
          (let (outcome, w') =
                 ChatCompletion_create (evaluation_request user_prompt ai_response) w
           in (read_response rt ai_response outcome, w')))"

text \<open>The outer handler \<^verbatim>\<open>except Exception\<close> (lines 196 to 205): it prints two lines and
  returns the default. The prints stand in no \<^verbatim>\<open>try\<close>: their exception leaves the
  function.\<close>

definition except_Exception :: "runtime \<Rightarrow> exn + pyval \<Rightarrow> exn + pyval" where
  "except_Exception rt r =
     (case r of
        Inr v \<Rightarrow> Inr v
      | Inl e \<Rightarrow>
          and_then (py_print rt (error_line e)) (\<lambda>_.
          and_then (py_print rt (details_line e)) (\<lambda>_.
          Inr unavailable_verdict)))"

text \<open>\<^verbatim>\<open>evaluate_response\<close> (lines 48 to 205): the result is the returned dict, or the
  exception that leaves the function, together with the world after the call. The print
  of the pre-check (line 69) stands in no \<^verbatim>\<open>try\<close>.\<close>

definition evaluate_response ::
  "runtime \<Rightarrow> pystr \<Rightarrow> pystr \<Rightarrow> world \<Rightarrow> (exn + pyval) \<times> world" where
  "evaluate_response rt user_prompt ai_response w =
     (case first_fake_pattern rt user_prompt ai_response of
        Some pattern \<Rightarrow>
          (and_then (py_print rt (precheck_line pattern)) (\<lambda>_. Inr (precheck_verdict pattern)), w)
      | None \<Rightarrow>
          (let (r, w') = try_body rt user_prompt ai_response w
           in (except_Exception rt r, w')))"

section \<open>Concrete environments\<close>

text \<open>
  Concrete values for the parameters, so that the theorems can be run on inputs:
  \<^item> \<open>lower_basic\<close> is \<^verbatim>\<open>str.lower\<close> on the characters whose lower case holds an ASCII
    letter (the capitals, the Kelvin sign U+212A and the dotted capital I U+0130); it is
    used on strings of ASCII characters and these two only;
  \<^item> \<open>loads_table\<close> and \<open>repr_table\<close> give \<^verbatim>\<open>json.loads\<close> and \<^verbatim>\<open>repr\<close> by a finite table;
  \<^item> \<open>utf8_stdout\<close> is a stream encoded in UTF-8, which has no code for a surrogate, and
    \<open>ascii_stdout\<close> one encoded in ASCII; the text of their exception is shortened (Python
    adds the character and its position);
  \<^item> \<open>scripted\<close> is a judge that answers its \<open>k\<close>-th call with the \<open>k\<close>-th outcome of a list.
\<close>

definition lower_basic :: "pystr \<Rightarrow> pystr" where
  "lower_basic s =
     concat (map (\<lambda>c. if 0x41 \<le> c \<and> c \<le> 0x5A then [c + 0x20]
                       else if c = 0x212A then [0x6B]
                       else if c = 0x130 then [0x69, 0x307]
                       else [c]) s)"

definition loads_table :: "(pystr \<times> pyval) list \<Rightarrow> pystr \<Rightarrow> exn + pyval" where
  "loads_table table text =
     (case map_of table text of
        Some v \<Rightarrow> Inr v
      | None \<Rightarrow> Inl (Exn JSONDecodeError (ascii ''Expecting value: line 1 column 1 (char 0)'')))"

definition repr_table :: "(pyval \<times> pystr) list \<Rightarrow> pyval \<Rightarrow> pystr" where
  "repr_table table v = (case map_of table v of Some s \<Rightarrow> s | None \<Rightarrow> ascii ''...'')"

definition utf8_stdout :: "pystr \<Rightarrow> exn option" where
  "utf8_stdout line =
     (if list_ex (\<lambda>c. 0xD800 \<le> c \<and> c \<le> 0xDFFF) line
      then Some (Exn UnicodeEncodeError
                   (ascii ''utf-8 codec can't encode character: surrogates not allowed''))
      else None)"


definition python :: "(pystr \<times> pyval) list \<Rightarrow> (pyval \<times> pystr) list \<Rightarrow> (pystr \<Rightarrow> exn option) \<Rightarrow> runtime" where
  "python loads reprs out =
     \<lparr>lower = lower_basic, json_loads = loads_table loads, repr = repr_table reprs, stdout = out\<rparr>"

definition scripted :: "(exn + response) list \<Rightarrow> nat \<Rightarrow> request \<Rightarrow> exn + response" where
  "scripted outcomes k req =
     (if k < length outcomes then outcomes ! k
      else Inl (Exn (OtherException (ascii ''APIConnectionError''))
                  (ascii ''Error communicating with OpenAI'')))"

section \<open>Notions for stating the properties\<close>

text \<open>\<open>written rt lines\<close>: the stream takes each of the lines. The lists name the lines
  the function prints on its way: before the call, after the call, after a successful
  validation (with the object returned, its score, rationale and flag), and in the outer
  handler.\<close>

definition written :: "runtime \<Rightarrow> pystr list \<Rightarrow> bool" where
  "written rt lines = list_all (\<lambda>line. stdout rt line = None) lines"

definition lines_before_call :: "pystr \<Rightarrow> pystr \<Rightarrow> pystr list" where
  "lines_before_call user_prompt ai_response =
     [start_line user_prompt, response_line ai_response]"

definition lines_after_call :: "runtime \<Rightarrow> response \<Rightarrow> pystr option \<Rightarrow> pystr list" where
  "lines_after_call rt resp evaluation_text =
     [raw_response_line resp, text_line evaluation_text,
      tokens_line rt (usage_total_tokens resp)]"

definition lines_of_success ::
  "runtime \<Rightarrow> pystr \<Rightarrow> pyval \<Rightarrow> pyval \<Rightarrow> pyval \<Rightarrow> bool \<Rightarrow> pystr list" where
  "lines_of_success rt ai_response evaluation_data score rationale flag =
     parsed_line rt evaluation_data #
     (if flag then [hallucination_line rt rationale] else []) @
     (if 4 \<le> int_value score \<and>
         list_ex (\<lambda>pattern. str_contains pattern (lower rt ai_response)) suspicious_patterns
      then [high_score_line rt score (PBool flag), snippet_line ai_response]
      else [])"

definition lines_of_handler :: "exn \<Rightarrow> pystr list" where
  "lines_of_handler e = [error_line e, details_line e]"



section \<open>Supporting lemmas\<close>

lemma ascii_eq_iff [simp]: "ascii s = ascii t \<longleftrightarrow> s = t"
  by (auto simp: ascii_def inj_map_eq_map inj_on_def)

lemma ascii_append: "ascii (s @ t) = ascii s @ ascii t"
  by (simp add: ascii_def)

lemma and_then_simps [simp]:
  "and_then (Inl e) f = Inl e"
  "and_then (Inr x) f = f x"
  by (simp_all add: and_then_def)

lemma py_print_written [simp]: "stdout rt line = None \<Longrightarrow> py_print rt line = Inr ()"
  by (simp add: py_print_def)

lemma py_print_raises [simp]: "stdout rt line = Some e \<Longrightarrow> py_print rt line = Inl e"
  by (simp add: py_print_def)

lemma py_print_cases:
  "py_print rt line = Inr () \<and> stdout rt line = None \<or>
   (\<exists>e. py_print rt line = Inl e \<and> stdout rt line = Some e)"
  by (cases "stdout rt line") simp_all






lemma evaluate_response_match:
  "first_fake_pattern rt user_prompt ai_response = Some pattern \<Longrightarrow>
   evaluate_response rt user_prompt ai_response w =
     (and_then (py_print rt (precheck_line pattern)) (\<lambda>_. Inr (precheck_verdict pattern)), w)"
  by (simp add: evaluate_response_def)

lemma evaluate_response_no_match:
  "first_fake_pattern rt user_prompt ai_response = None \<Longrightarrow>
   evaluate_response rt user_prompt ai_response w =
     (except_Exception rt (fst (try_body rt user_prompt ai_response w)),
      snd (try_body rt user_prompt ai_response w))"
  by (simp add: evaluate_response_def split: prod.splits)

lemma try_body_written:
  "written rt (lines_before_call user_prompt ai_response) \<Longrightarrow>
   try_body rt user_prompt ai_response w =
     (read_response rt ai_response
        (judge w (length (calls w)) (evaluation_request user_prompt ai_response)),
      w\<lparr>calls := calls w @ [evaluation_request user_prompt ai_response]\<rparr>)"
  by (simp add: try_body_def written_def lines_before_call_def ChatCompletion_create_def)

lemma try_body_not_written:
  "\<not> written rt (lines_before_call user_prompt ai_response) \<Longrightarrow>
   \<exists>e. try_body rt user_prompt ai_response w = (Inl e, w)"
proof -
  assume n: "\<not> written rt (lines_before_call user_prompt ai_response)"
  show ?thesis
  proof (cases "stdout rt (start_line user_prompt)")
    case (Some e)
    then show ?thesis by (simp add: try_body_def)
  next
    case None
    with n obtain e where "stdout rt (response_line ai_response) = Some e"
      by (auto simp: written_def lines_before_call_def)
    with None show ?thesis by (simp add: try_body_def)
  qed
qed

lemma try_body_calls:
  "snd (try_body rt user_prompt ai_response w) = w \<or>
   snd (try_body rt user_prompt ai_response w) =
     w\<lparr>calls := calls w @ [evaluation_request user_prompt ai_response]\<rparr>"
proof (cases "written rt (lines_before_call user_prompt ai_response)")
  case True
  then show ?thesis by (simp add: try_body_written)
next
  case False
  from try_body_not_written [OF this, of w] obtain e where
    "try_body rt user_prompt ai_response w = (Inl e, w)" ..
  then show ?thesis by simp
qed

lemma all_in_required_dict:
  "all_in required_fields (PDict d) =
     Inr (ascii ''score'' \<in> fst ` set d \<and> ascii ''rationale'' \<in> fst ` set d \<and>
          ascii ''hallucination_flag'' \<in> fst ` set d)"
  by (auto simp: required_fields_def split: bool.splits)

lemma all_in_required_getitem:
  "all_in required_fields data = Inr True \<Longrightarrow> py_getitem data (ascii ''score'') = Inr sc \<Longrightarrow>
   \<exists>d. data = PDict d"
  by (cases data) simp_all

lemma validate_evaluation_Inr:
  assumes "validate_evaluation rt evaluation_text = Inr v"
  shows "\<exists>str d sc b ra.
           evaluation_text = Some str \<and> strip str \<noteq> [] \<and> json_loads rt str = Inr (PDict d) \<and>
           map_of d (ascii ''score'') = Some sc \<and> isinstance_int sc \<and>
           1 \<le> int_value sc \<and> int_value sc \<le> 5 \<and>
           map_of d (ascii ''rationale'') = Some ra \<and>
           map_of d (ascii ''hallucination_flag'') = Some (PBool b) \<and>
           v = PDict d"
proof -
  from assms obtain str where t: "evaluation_text = Some str" and s: "strip str \<noteq> []"
    by (auto simp: validate_evaluation_def split: option.splits if_splits)
  from assms t s obtain data where l: "json_loads rt str = Inr data"
    by (cases "json_loads rt str") (auto simp: validate_evaluation_def split: if_splits)
  from assms t s l have a: "all_in required_fields data = Inr True"
    by (cases "all_in required_fields data")
       (auto simp: validate_evaluation_def split: if_splits)
  from assms t s l a obtain sc where g: "py_getitem data (ascii ''score'') = Inr sc"
    by (cases "py_getitem data (ascii ''score'')")
       (auto simp: validate_evaluation_def split: if_splits)
  from a g obtain d where d: "data = PDict d"
    using all_in_required_getitem by blast
  from a d have keys: "ascii ''score'' \<in> fst ` set d" "ascii ''rationale'' \<in> fst ` set d"
      "ascii ''hallucination_flag'' \<in> fst ` set d"
    by (simp_all add: all_in_required_dict)
  from g d have sc: "map_of d (ascii ''score'') = Some sc"
    by (simp split: option.splits)
  from keys(2) obtain ra where ra: "map_of d (ascii ''rationale'') = Some ra"
    by (metis domIff dom_map_of_conv_image_fst not_Some_eq)
  from keys(3) obtain fl where fl: "map_of d (ascii ''hallucination_flag'') = Some fl"
    by (metis domIff dom_map_of_conv_image_fst not_Some_eq)
  from assms t s l a g d sc fl have rng: "isinstance_int sc" "1 \<le> int_value sc" "int_value sc \<le> 5"
    and b: "isinstance_bool fl" and v: "v = PDict d"
    by (auto simp: validate_evaluation_def split: if_splits)
  from b obtain b' where "fl = PBool b'" by (cases fl) simp_all
  with t s l d sc rng ra fl v show ?thesis by blast
qed

lemma validate_evaluation_dict:
  assumes "strip str \<noteq> []" and "json_loads rt str = Inr (PDict d)"
    and "map_of d (ascii ''score'') = Some sc" and "isinstance_int sc"
    and "1 \<le> int_value sc" and "int_value sc \<le> 5"
    and "map_of d (ascii ''rationale'') = Some ra"
    and "map_of d (ascii ''hallucination_flag'') = Some (PBool b)"
  shows "validate_evaluation rt (Some str) = Inr (PDict d)"
proof -
  from assms(3,7,8) have "ascii ''score'' \<in> fst ` set d" "ascii ''rationale'' \<in> fst ` set d"
      "ascii ''hallucination_flag'' \<in> fst ` set d"
    by (metis domI dom_map_of_conv_image_fst)+
  then have "all_in required_fields (PDict d) = Inr True"
    by (simp add: all_in_required_dict)
  with assms show ?thesis
    by (auto simp: validate_evaluation_def strip_def)
qed

lemma finish_evaluation_dict:
  assumes "map_of d (ascii ''score'') = Some sc"
    and "map_of d (ascii ''rationale'') = Some ra"
    and "map_of d (ascii ''hallucination_flag'') = Some (PBool b)"
  shows "finish_evaluation rt ai_response (PDict d) n =
     and_then (py_print rt (parsed_line rt (PDict (AList.update (ascii ''tokens'') (PInt n) d)))) (\<lambda>_.
     and_then (if b then py_print rt (hallucination_line rt ra) else Inr ()) (\<lambda>_.
     and_then
       (if 4 \<le> int_value sc \<and>
           list_ex (\<lambda>pattern. str_contains pattern (lower rt ai_response)) suspicious_patterns
        then and_then (py_print rt (high_score_line rt sc (PBool b))) (\<lambda>_.
               py_print rt (snippet_line ai_response))
        else Inr ()) (\<lambda>_.
     Inr (PDict (AList.update (ascii ''tokens'') (PInt n) d)))))"
  using assms by (simp add: finish_evaluation_def update_conv')

lemma finish_evaluation_written:
  assumes "map_of d (ascii ''score'') = Some sc"
    and "map_of d (ascii ''rationale'') = Some ra"
    and "map_of d (ascii ''hallucination_flag'') = Some (PBool b)"
    and "written rt (lines_of_success rt ai_response
           (PDict (AList.update (ascii ''tokens'') (PInt n) d)) sc ra b)"
  shows "finish_evaluation rt ai_response (PDict d) n =
           Inr (PDict (AList.update (ascii ''tokens'') (PInt n) d))"
  using assms(4) unfolding finish_evaluation_dict [OF assms(1-3)]
  by (auto simp: written_def lines_of_success_def)

lemma finish_evaluation_cases:
  assumes "map_of d (ascii ''score'') = Some sc"
    and "map_of d (ascii ''rationale'') = Some ra"
    and "map_of d (ascii ''hallucination_flag'') = Some (PBool b)"
  shows "finish_evaluation rt ai_response (PDict d) n =
           Inr (PDict (AList.update (ascii ''tokens'') (PInt n) d)) \<or>
         (\<exists>e. finish_evaluation rt ai_response (PDict d) n = Inl e)"
  by (cases "finish_evaluation rt ai_response (PDict d) n")
     (auto simp: finish_evaluation_dict [OF assms] and_then_def split: sum.splits if_splits)

lemma read_response_written:
  assumes "choices resp = evaluation_text # rest"
    and "written rt (lines_after_call rt resp evaluation_text)"
  shows "read_response rt ai_response (Inr resp) =
           parse_or_default rt ai_response evaluation_text (usage_total_tokens resp)"
  using assms by (simp add: read_response_def written_def lines_after_call_def)

lemma parse_or_default_Inr:
  assumes "parse_or_default rt ai_response evaluation_text n = Inr v"
  shows "v = parse_failure_verdict n \<or>
         (\<exists>d. validate_evaluation rt evaluation_text = Inr (PDict d) \<and>
              v = PDict (AList.update (ascii ''tokens'') (PInt n) d))"
proof (cases "parse_evaluation rt ai_response evaluation_text n")
  case (Inl e)
  with assms have "v = parse_failure_verdict n"
    by (auto simp: parse_or_default_def and_then_def split: if_splits sum.splits)
  then show ?thesis ..
next
  case (Inr u)
  with assms have u: "u = v" by (simp add: parse_or_default_def)
  from Inr obtain x where x: "validate_evaluation rt evaluation_text = Inr x"
    and f: "finish_evaluation rt ai_response x n = Inr u"
    by (cases "validate_evaluation rt evaluation_text") (auto simp: parse_evaluation_def)
  from validate_evaluation_Inr [OF x] obtain d sc b ra where
    d: "x = PDict d" and m: "map_of d (ascii ''score'') = Some sc"
      "map_of d (ascii ''rationale'') = Some ra"
      "map_of d (ascii ''hallucination_flag'') = Some (PBool b)"
    by blast
  from finish_evaluation_cases [OF m, of rt ai_response n] f d
  have "u = PDict (AList.update (ascii ''tokens'') (PInt n) d)" by auto
  with u x d show ?thesis by blast
qed

lemma read_response_Inr:
  assumes "read_response rt ai_response outcome = Inr v"
  shows "\<exists>resp evaluation_text rest.
           outcome = Inr resp \<and> choices resp = evaluation_text # rest \<and>
           (v = parse_failure_verdict (usage_total_tokens resp) \<or>
            (\<exists>d. validate_evaluation rt evaluation_text = Inr (PDict d) \<and>
                 v = PDict (AList.update (ascii ''tokens'') (PInt (usage_total_tokens resp)) d)))"
proof -
  from assms obtain resp where o: "outcome = Inr resp"
    by (cases outcome) (auto simp: read_response_def)
  from assms o obtain evaluation_text rest where c: "choices resp = evaluation_text # rest"
    by (cases "choices resp") (auto simp: read_response_def and_then_def split: sum.splits)
  from assms o c have "parse_or_default rt ai_response evaluation_text (usage_total_tokens resp) = Inr v"
    by (auto simp: read_response_def and_then_def split: sum.splits)
  from parse_or_default_Inr [OF this] o c show ?thesis by blast
qed

lemma except_Exception_Inr:
  "except_Exception rt r = Inr v \<Longrightarrow> r = Inr v \<or> ((\<exists>e. r = Inl e) \<and> v = unavailable_verdict)"
  by (cases r) (auto simp: except_Exception_def and_then_def split: sum.splits)

lemma except_Exception_written:
  "written rt (lines_of_handler e) \<Longrightarrow> except_Exception rt (Inl e) = Inr unavailable_verdict"
  by (simp add: except_Exception_def written_def lines_of_handler_def)

lemma try_body_Inr:
  assumes "fst (try_body rt user_prompt ai_response w) = Inr v"
  shows "written rt (lines_before_call user_prompt ai_response) \<and>
         snd (try_body rt user_prompt ai_response w) =
           w\<lparr>calls := calls w @ [evaluation_request user_prompt ai_response]\<rparr> \<and>
         read_response rt ai_response
           (judge w (length (calls w)) (evaluation_request user_prompt ai_response)) = Inr v"
proof (cases "written rt (lines_before_call user_prompt ai_response)")
  case True
  with assms show ?thesis by (simp add: try_body_written)
next
  case False
  from try_body_not_written [OF this, of w] assms show ?thesis by auto
qed

text \<open>Every dict the function returns is one of four: the pre-check's, one of the two
  defaults, or the validated object of the judge with its token count.\<close>

lemma evaluate_response_Inr_cases:
  assumes "fst (evaluate_response rt user_prompt ai_response w) = Inr v"
  shows "(\<exists>pattern. first_fake_pattern rt user_prompt ai_response = Some pattern \<and>
            v = precheck_verdict pattern) \<or>
         (first_fake_pattern rt user_prompt ai_response = None \<and> v = unavailable_verdict) \<or>
         (\<exists>resp evaluation_text rest.
            first_fake_pattern rt user_prompt ai_response = None \<and>
            written rt (lines_before_call user_prompt ai_response) \<and>
            judge w (length (calls w)) (evaluation_request user_prompt ai_response) = Inr resp \<and>
            choices resp = evaluation_text # rest \<and>
            (v = parse_failure_verdict (usage_total_tokens resp) \<or>
             (\<exists>d. validate_evaluation rt evaluation_text = Inr (PDict d) \<and>
                  v = PDict (AList.update (ascii ''tokens'') (PInt (usage_total_tokens resp)) d))))"
proof (cases "first_fake_pattern rt user_prompt ai_response")
  case (Some pattern)
  with assms have "v = precheck_verdict pattern"
    by (auto simp: evaluate_response_match and_then_def split: sum.splits)
  with Some show ?thesis by blast
next
  case None
  with assms have "except_Exception rt (fst (try_body rt user_prompt ai_response w)) = Inr v"
    by (simp add: evaluate_response_no_match)
  from except_Exception_Inr [OF this] show ?thesis
  proof
    assume "fst (try_body rt user_prompt ai_response w) = Inr v"
    from try_body_Inr [OF this] read_response_Inr None show ?thesis by blast
  next
    assume "(\<exists>e. fst (try_body rt user_prompt ai_response w) = Inl e) \<and> v = unavailable_verdict"
    with None show ?thesis by blast
  qed
qed

lemma evaluate_response_calls:
  "snd (evaluate_response rt user_prompt ai_response w) = w \<or>
   snd (evaluate_response rt user_prompt ai_response w) =
     w\<lparr>calls := calls w @ [evaluation_request user_prompt ai_response]\<rparr>"
proof (cases "first_fake_pattern rt user_prompt ai_response")
  case (Some pattern)
  then show ?thesis by (simp add: evaluate_response_match)
next
  case None
  then show ?thesis using try_body_calls [of rt user_prompt ai_response w]
    by (simp add: evaluate_response_no_match)
qed

text \<open>The successful path as a whole.\<close>

lemma evaluate_response_parsed:
  assumes "first_fake_pattern rt user_prompt ai_response = None"
    and "written rt (lines_before_call user_prompt ai_response)"
    and "judge w (length (calls w)) (evaluation_request user_prompt ai_response) = Inr resp"
    and "choices resp = evaluation_text # rest"
    and "written rt (lines_after_call rt resp evaluation_text)"
    and "validate_evaluation rt evaluation_text = Inr (PDict d)"
    and "map_of d (ascii ''score'') = Some sc"
    and "map_of d (ascii ''rationale'') = Some ra"
    and "map_of d (ascii ''hallucination_flag'') = Some (PBool b)"
    and "written rt (lines_of_success rt ai_response
           (PDict (AList.update (ascii ''tokens'') (PInt (usage_total_tokens resp)) d)) sc ra b)"
  shows "fst (evaluate_response rt user_prompt ai_response w) =
           Inr (PDict (AList.update (ascii ''tokens'') (PInt (usage_total_tokens resp)) d))"
proof -
  from assms(6-10) have "parse_evaluation rt ai_response evaluation_text (usage_total_tokens resp) =
      Inr (PDict (AList.update (ascii ''tokens'') (PInt (usage_total_tokens resp)) d))"
    by (simp add: parse_evaluation_def finish_evaluation_written)
  then have "parse_or_default rt ai_response evaluation_text (usage_total_tokens resp) =
      Inr (PDict (AList.update (ascii ''tokens'') (PInt (usage_total_tokens resp)) d))"
    by (simp add: parse_or_default_def)
  with assms(1-5) show ?thesis
    by (simp add: evaluate_response_no_match try_body_written read_response_written
        except_Exception_def)
qed



lemma ospf_no_match:
  "first_fake_pattern (python loads reprs out) (ascii ''What is OSPF?'')
     (ascii ''OSPF is a link-state routing protocol.'') = None"
proof -
  have "find (\<lambda>pattern. str_contains (lower_basic pattern)
                (lower_basic (ascii ''What is OSPF?'' @ ascii '' '' @
                              ascii ''OSPF is a link-state routing protocol.'')))
          fake_patterns = None"
    by code_simp
  then show ?thesis
    by (simp add: first_fake_pattern_def combined_text_def python_def)
qed

lemma ospf_lines_before_call:
  "written (python loads reprs utf8_stdout)
     (lines_before_call (ascii ''What is OSPF?'') (ascii ''OSPF is a link-state routing protocol.''))"
proof -
  have "list_all (\<lambda>line. utf8_stdout line = None)
          (lines_before_call (ascii ''What is OSPF?'')
             (ascii ''OSPF is a link-state routing protocol.''))"
    by code_simp
  then show ?thesis
    by (simp add: written_def python_def)
qed






lemma validate_evaluation_blank:
  "evaluation_text = None \<or> (\<exists>str. evaluation_text = Some str \<and> strip str = []) \<Longrightarrow>
   \<exists>m. validate_evaluation rt evaluation_text = Inl (Exn ValueError m)"
  by (auto simp: validate_evaluation_def)

lemma validate_evaluation_loads_raises:
  "strip str \<noteq> [] \<Longrightarrow> json_loads rt str = Inl e \<Longrightarrow>
   validate_evaluation rt (Some str) = Inl e"
  by (auto simp: validate_evaluation_def strip_def)

lemma validate_evaluation_invalid_object:
  assumes "strip str \<noteq> []" and "json_loads rt str = Inr (PDict d)"
    and "map_of d (ascii ''score'') = None \<or> map_of d (ascii ''rationale'') = None \<or>
         map_of d (ascii ''hallucination_flag'') = None \<or>
         (\<exists>sc. map_of d (ascii ''score'') = Some sc \<and>
               \<not> (isinstance_int sc \<and> 1 \<le> int_value sc \<and> int_value sc \<le> 5)) \<or>
         (\<exists>fl. map_of d (ascii ''hallucination_flag'') = Some fl \<and> \<not> isinstance_bool fl)"
  shows "\<exists>m. validate_evaluation rt (Some str) = Inl (Exn ValueError m)"
proof -
  from assms(1) have nb: "str \<noteq> []" by (auto simp: strip_def)
  show ?thesis
  proof (cases "all_in required_fields (PDict d) = Inr True")
    case False
    then have "all_in required_fields (PDict d) = Inr False"
      by (simp add: all_in_required_dict)
    with assms(1,2) nb show ?thesis
      by (simp add: validate_evaluation_def)
  next
    case True
    then have k: "ascii ''score'' \<in> fst ` set d" "ascii ''rationale'' \<in> fst ` set d"
        "ascii ''hallucination_flag'' \<in> fst ` set d"
      by (simp_all add: all_in_required_dict)
    then obtain sc fl where sc: "map_of d (ascii ''score'') = Some sc"
      and fl: "map_of d (ascii ''hallucination_flag'') = Some fl"
      and "map_of d (ascii ''rationale'') \<noteq> None"
      by (metis domIff dom_map_of_conv_image_fst not_Some_eq)
    with assms(3) have "\<not> (isinstance_int sc \<and> 1 \<le> int_value sc \<and> int_value sc \<le> 5) \<or>
                        \<not> isinstance_bool fl"
      by auto
    with assms(1,2) nb True sc fl show ?thesis
      by (auto simp: validate_evaluation_def)
  qed
qed

lemma validate_evaluation_not_iterable:
  assumes "strip str \<noteq> []" and "json_loads rt str = Inr v"
    and "v = PNone \<or> (\<exists>b. v = PBool b) \<or> (\<exists>i. v = PInt i) \<or> (\<exists>f. v = PFloat f)"
  shows "\<exists>m. validate_evaluation rt (Some str) = Inl (Exn TypeError m)"
  using assms by (auto simp: validate_evaluation_def strip_def required_fields_def)

lemma parse_failure_returned:
  assumes "first_fake_pattern rt user_prompt ai_response = None"
    and "written rt (lines_before_call user_prompt ai_response)"
    and "judge w (length (calls w)) (evaluation_request user_prompt ai_response) = Inr resp"
    and "choices resp = evaluation_text # rest"
    and "written rt (lines_after_call rt resp evaluation_text)"
    and "validate_evaluation rt evaluation_text = Inl e"
    and "is_ValueError e"
    and "written rt [parse_error_line e, raw_text_line evaluation_text]"
  shows "fst (evaluate_response rt user_prompt ai_response w) =
           Inr (parse_failure_verdict (usage_total_tokens resp))"
proof -
  from assms(6-8) have "parse_or_default rt ai_response evaluation_text (usage_total_tokens resp) =
      Inr (parse_failure_verdict (usage_total_tokens resp))"
    by (simp add: parse_or_default_def parse_evaluation_def written_def)
  with assms(1-5) show ?thesis
    by (simp add: evaluate_response_no_match try_body_written read_response_written
        except_Exception_def)
qed

lemma type_error_reported_unavailable:
  assumes "first_fake_pattern rt user_prompt ai_response = None"
    and "written rt (lines_before_call user_prompt ai_response)"
    and "judge w (length (calls w)) (evaluation_request user_prompt ai_response) = Inr resp"
    and "choices resp = evaluation_text # rest"
    and "written rt (lines_after_call rt resp evaluation_text)"
    and "validate_evaluation rt evaluation_text = Inl (Exn TypeError m)"
    and "written rt (lines_of_handler (Exn TypeError m))"
  shows "fst (evaluate_response rt user_prompt ai_response w) = Inr unavailable_verdict"
proof -
  from assms(6) have "parse_or_default rt ai_response evaluation_text (usage_total_tokens resp) =
      Inl (Exn TypeError m)"
    by (simp add: parse_or_default_def parse_evaluation_def)
  with assms(1-5,7) show ?thesis
    by (simp add: evaluate_response_no_match try_body_written read_response_written
        except_Exception_written)
qed

section \<open>The claims\<close>




text \<open>
  C2. The claim says that every judge text without the three fields ends in the
  parse-failure default with the reported token count. The code does so when
  \<^verbatim>\<open>json.loads\<close> raises, when the text is blank and when the value is an object that fails
  a check (\<open>validate_evaluation_blank\<close>, \<open>validate_evaluation_loads_raises\<close>,
  \<open>validate_evaluation_invalid_object\<close>, \<open>parse_failure_returned\<close>). On a JSON number,
  boolean or \<^verbatim>\<open>null\<close> the membership test \<^verbatim>\<open>field in evaluation_data\<close> raises
  \<^verbatim>\<open>TypeError\<close>, which the inner handler does not catch
  (\<open>validate_evaluation_not_iterable\<close>, \<open>type_error_reported_unavailable\<close>): for the judge
  text \<^verbatim>\<open>5\<close> with 42 tokens reported, the function returns the service-unavailable
  default with tokens 0.
\<close>

theorem scalar_json_reported_unavailable:
  \<open>fst (evaluate_response
          (python [(ascii ''5'', PInt 5)] [(PInt 42, ascii ''42'')] utf8_stdout)
          (ascii ''What is OSPF?'') (ascii ''OSPF is a link-state routing protocol.'')
          \<lparr>judge = scripted
             [Inr \<lparr>choices = [Some (ascii ''5'')], usage_total_tokens = 42,
                   as_text = ascii ''{"choices": [{"message": {"content": "5"}}], "usage": {"total_tokens": 42}}''\<rparr>],
           calls = []\<rparr>) =
     Inr (PDict
        [(ascii ''score'', PInt 3),
         (ascii ''rationale'', PStr (ascii ''Evaluation service unavailable - assigned neutral score'')),
         (ascii ''hallucination_flag'', PBool False),
         (ascii ''tokens'', PInt 0)])\<close>
  by code_simp







text \<open>
  C5 (counterexample). The claim says that a well-formed judge object is returned as it
  is. After validation the function prints the rationale of a flagged object, inside
  the inner \<^verbatim>\<open>try\<close>: for the judge text
  \<^verbatim>\<open>{"score": 4, "rationale": "\ud800", "hallucination_flag": true}\<close>, whose rationale is a
  lone surrogate, on a stream encoded in UTF-8, the print raises \<^verbatim>\<open>UnicodeEncodeError\<close>,
  a \<^verbatim>\<open>ValueError\<close>, and the function returns the parse-failure default.
\<close>

theorem flagged_verdict_not_mirrored:
  \<open>fst (evaluate_response
          (python
             [(ascii ''{"score": 4, "rationale": "'' @ [0x5C] @ ascii ''ud800", "hallucination_flag": true}'',
               PDict [(ascii ''score'', PInt 4), (ascii ''rationale'', PStr [0xD800]),
                      (ascii ''hallucination_flag'', PBool True)])]
             [(PInt 88, ascii ''88''),
              (PDict [(ascii ''score'', PInt 4), (ascii ''rationale'', PStr [0xD800]),
                      (ascii ''hallucination_flag'', PBool True), (ascii ''tokens'', PInt 88)],
               ascii ''{'score': 4, 'rationale': '' @ [0x27, 0x5C] @ ascii ''ud800', 'hallucination_flag': True, 'tokens': 88}'')]
             utf8_stdout)
          (ascii ''What is OSPF?'') (ascii ''OSPF is a link-state routing protocol.'')
          \<lparr>judge = scripted
             [Inr \<lparr>choices =
                     [Some (ascii ''{"score": 4, "rationale": "'' @ [0x5C] @ ascii ''ud800", "hallucination_flag": true}'')],
                   usage_total_tokens = 88,
                   as_text = ascii ''{"choices": [...], "usage": {"total_tokens": 88}}''\<rparr>],
           calls = []\<rparr>) =
     Inr (PDict
        [(ascii ''score'', PInt 3),
         (ascii ''rationale'', PStr (ascii ''Evaluation parsing failed - assigned neutral score'')),
         (ascii ''hallucination_flag'', PBool False),
         (ascii ''tokens'', PInt 88)])\<close>
  by code_simp

text \<open>
  C5 (as amended). With no denylist match, when the judge call returns a text that
  parses to an object whose \<^verbatim>\<open>score\<close> is an integer from 1 to 5, which has a
  \<^verbatim>\<open>rationale\<close> and whose \<^verbatim>\<open>hallucination_flag\<close> is a boolean, and the stream takes the lines
  printed on the way (two before the call, three after it, and those after validation),
  the function returns the parsed object with \<^verbatim>\<open>tokens\<close> set to the reported token count:
  score, rationale and flag are the parsed values. The parser is a parameter, so that
  the text is not blank is stated; a text that real JSON accepts never is.
\<close>

theorem parsed_verdict_mirrors_judge:
  assumes "first_fake_pattern rt user_prompt ai_response = None"
    and "written rt (lines_before_call user_prompt ai_response)"
    and "judge w (length (calls w)) (evaluation_request user_prompt ai_response) = Inr resp"
    and "choices resp = Some str # rest"
    and "written rt (lines_after_call rt resp (Some str))"
    and "strip str \<noteq> []"
    and "json_loads rt str = Inr (PDict d)"
    and "map_of d (ascii ''score'') = Some (PInt s)" and "1 \<le> s" and "s \<le> 5"
    and "map_of d (ascii ''rationale'') = Some rationale"
    and "map_of d (ascii ''hallucination_flag'') = Some (PBool b)"
    and "written rt (lines_of_success rt ai_response
           (PDict (AList.update (ascii ''tokens'') (PInt (usage_total_tokens resp)) d))
           (PInt s) rationale b)"
  shows "\<exists>v. fst (evaluate_response rt user_prompt ai_response w) = Inr v \<and>
             v = PDict (AList.update (ascii ''tokens'') (PInt (usage_total_tokens resp)) d) \<and>
             py_getitem v (ascii ''score'') = Inr (PInt s) \<and>
             py_getitem v (ascii ''rationale'') = Inr rationale \<and>
             py_getitem v (ascii ''hallucination_flag'') = Inr (PBool b) \<and>
             py_getitem v (ascii ''tokens'') = Inr (PInt (usage_total_tokens resp))"
proof -
  have "validate_evaluation rt (Some str) = Inr (PDict d)"
    using assms(6-12) by (intro validate_evaluation_dict [where sc = "PInt s"]) simp_all
  from evaluate_response_parsed [OF assms(1-5) this assms(8,11,12,13)]
  have "fst (evaluate_response rt user_prompt ai_response w) =
      Inr (PDict (AList.update (ascii ''tokens'') (PInt (usage_total_tokens resp)) d))" .
  with assms(8,11,12) show ?thesis
    by (simp add: update_conv')
qed

theorem parsed_verdict_mirrors_judge_witness:
  \<open>first_fake_pattern
     (python
        [(ascii ''{"score":5,"rationale":"Accurate and complete","hallucination_flag":false}'',
          PDict [(ascii ''score'', PInt 5), (ascii ''rationale'', PStr (ascii ''Accurate and complete'')),
                 (ascii ''hallucination_flag'', PBool False)])]
        [(PInt 120, ascii ''120''),
         (PDict [(ascii ''score'', PInt 5), (ascii ''rationale'', PStr (ascii ''Accurate and complete'')),
                 (ascii ''hallucination_flag'', PBool False), (ascii ''tokens'', PInt 120)],
          ascii ''{'score': 5, 'rationale': 'Accurate and complete', 'hallucination_flag': False, 'tokens': 120}'')]
        utf8_stdout)
     (ascii ''What is OSPF?'') (ascii ''OSPF is a link-state routing protocol.'') = None \<and>
   strip (ascii ''{"score":5,"rationale":"Accurate and complete","hallucination_flag":false}'') \<noteq> [] \<and>
   fst (evaluate_response
          (python
             [(ascii ''{"score":5,"rationale":"Accurate and complete","hallucination_flag":false}'',
               PDict [(ascii ''score'', PInt 5), (ascii ''rationale'', PStr (ascii ''Accurate and complete'')),
                      (ascii ''hallucination_flag'', PBool False)])]
             [(PInt 120, ascii ''120''),
              (PDict [(ascii ''score'', PInt 5), (ascii ''rationale'', PStr (ascii ''Accurate and complete'')),
                      (ascii ''hallucination_flag'', PBool False), (ascii ''tokens'', PInt 120)],
               ascii ''{'score': 5, 'rationale': 'Accurate and complete', 'hallucination_flag': False, 'tokens': 120}'')]
             utf8_stdout)
          (ascii ''What is OSPF?'') (ascii ''OSPF is a link-state routing protocol.'')
          \<lparr>judge = scripted
             [Inr \<lparr>choices =
                     [Some (ascii ''{"score":5,"rationale":"Accurate and complete","hallucination_flag":false}'')],
                   usage_total_tokens = 120,
                   as_text = ascii ''{"choices": [...], "usage": {"total_tokens": 120}}''\<rparr>],
           calls = []\<rparr>) =
     Inr (PDict [(ascii ''score'', PInt 5), (ascii ''rationale'', PStr (ascii ''Accurate and complete'')),
                 (ascii ''hallucination_flag'', PBool False), (ascii ''tokens'', PInt 120)])\<close>
proof -
  let ?txt = \<open>ascii ''{"score":5,"rationale":"Accurate and complete","hallucination_flag":false}''\<close>
  let ?d = "[(ascii ''score'', PInt 5), (ascii ''rationale'', PStr (ascii ''Accurate and complete'')),
             (ascii ''hallucination_flag'', PBool False)]"
  let ?reprs = "[(PInt 120, ascii ''120''),
         (PDict [(ascii ''score'', PInt 5), (ascii ''rationale'', PStr (ascii ''Accurate and complete'')),
                 (ascii ''hallucination_flag'', PBool False), (ascii ''tokens'', PInt 120)],
          ascii ''{'score': 5, 'rationale': 'Accurate and complete', 'hallucination_flag': False, 'tokens': 120}'')]"
  let ?rt = "python [(?txt, PDict ?d)] ?reprs utf8_stdout"
  let ?resp = \<open>\<lparr>choices = [Some ?txt], usage_total_tokens = 120,
                 as_text = ascii ''{"choices": [...], "usage": {"total_tokens": 120}}''\<rparr>\<close>
  let ?w = "\<lparr>judge = scripted [Inr ?resp], calls = []\<rparr>"
  let ?p = "ascii ''What is OSPF?''"
  let ?r = "ascii ''OSPF is a link-state routing protocol.''"
  have m: "first_fake_pattern ?rt ?p ?r = None" by (rule ospf_no_match)
  have b: "written ?rt (lines_before_call ?p ?r)" by (rule ospf_lines_before_call)
  have j: "judge ?w (length (calls ?w)) (evaluation_request ?p ?r) = Inr ?resp"
    by (simp add: scripted_def)
  have c: "choices ?resp = Some ?txt # []" by simp
  have a: "written ?rt (lines_after_call ?rt ?resp (Some ?txt))" by code_simp
  have s: "strip ?txt \<noteq> []" by code_simp
  have l: "json_loads ?rt ?txt = Inr (PDict ?d)" by (simp add: python_def loads_table_def)
  have k: "map_of ?d (ascii ''score'') = Some (PInt 5)"
    "map_of ?d (ascii ''rationale'') = Some (PStr (ascii ''Accurate and complete''))"
    "map_of ?d (ascii ''hallucination_flag'') = Some (PBool False)"
    by simp_all
  have u: "written ?rt (lines_of_success ?rt ?r
           (PDict (AList.update (ascii ''tokens'') (PInt (usage_total_tokens ?resp)) ?d))
           (PInt 5) (PStr (ascii ''Accurate and complete'')) False)"
    by code_simp
  from parsed_verdict_mirrors_judge [OF m b j c a s l k(1) _ _ k(2) k(3) u]
  have "fst (evaluate_response ?rt ?p ?r ?w) =
          Inr (PDict (AList.update (ascii ''tokens'') (PInt (usage_total_tokens ?resp)) ?d))"
    by simp
  then have "fst (evaluate_response ?rt ?p ?r ?w) =
     Inr (PDict [(ascii ''score'', PInt 5), (ascii ''rationale'', PStr (ascii ''Accurate and complete'')),
                 (ascii ''hallucination_flag'', PBool False), (ascii ''tokens'', PInt 120)])"
    by simp
  with m s show ?thesis by blast
qed




text \<open>
  C7 (counterexample). The rationale of the judge's object is never checked: with the
  judge text \<^verbatim>\<open>{"score": 4, "rationale": "", "hallucination_flag": false}\<close> the function
  returns a dict whose rationale is the empty string.
\<close>

theorem empty_rationale_returned:
  \<open>fst (evaluate_response
          (python
             [(ascii ''{"score": 4, "rationale": "", "hallucination_flag": false}'',
               PDict [(ascii ''score'', PInt 4), (ascii ''rationale'', PStr []),
                      (ascii ''hallucination_flag'', PBool False)])]
             [(PInt 88, ascii ''88''),
              (PDict [(ascii ''score'', PInt 4), (ascii ''rationale'', PStr []),
                      (ascii ''hallucination_flag'', PBool False), (ascii ''tokens'', PInt 88)],
               ascii ''{'score': 4, 'rationale': '' @ [0x27, 0x27] @
               ascii '', 'hallucination_flag': False, 'tokens': 88}'')]
             utf8_stdout)
          (ascii ''What is OSPF?'') (ascii ''OSPF is a link-state routing protocol.'')
          \<lparr>judge = scripted
             [Inr \<lparr>choices =
                     [Some (ascii ''{"score": 4, "rationale": "", "hallucination_flag": false}'')],
                   usage_total_tokens = 88,
                   as_text = ascii ''{"choices": [...], "usage": {"total_tokens": 88}}''\<rparr>],
           calls = []\<rparr>) =
     Inr (PDict [(ascii ''score'', PInt 4), (ascii ''rationale'', PStr []),
                 (ascii ''hallucination_flag'', PBool False), (ascii ''tokens'', PInt 88)])\<close>
  by code_simp

text \<open>
  C7 (as amended). Every dict the function returns has a rationale. On the
  parsed-success path (no denylist match, the call returns, its text passes validation
  and the stream takes the lines printed on the way) the function returns the judge's
  object, whose rationale is the value of the judge's \<^verbatim>\<open>rationale\<close> field, unchanged and
  unchecked. Every other dict the function returns (the pre-check's and the two
  defaults) has a non-empty string as its rationale.
\<close>

theorem rationale_nonempty_or_parsed:
  "(\<forall>v. fst (evaluate_response rt user_prompt ai_response w) = Inr v \<longrightarrow>
      (\<exists>s. py_getitem v (ascii ''rationale'') = Inr (PStr s) \<and> s \<noteq> []) \<or>
      (\<exists>resp' t' rest' d' ra'.
         first_fake_pattern rt user_prompt ai_response = None \<and>
         judge w (length (calls w)) (evaluation_request user_prompt ai_response) = Inr resp' \<and>
         choices resp' = t' # rest' \<and>
         validate_evaluation rt t' = Inr (PDict d') \<and>
         map_of d' (ascii ''rationale'') = Some ra' \<and>
         v = PDict (AList.update (ascii ''tokens'') (PInt (usage_total_tokens resp')) d') \<and>
         py_getitem v (ascii ''rationale'') = Inr ra')) \<and>
   (first_fake_pattern rt user_prompt ai_response = None \<and>
    written rt (lines_before_call user_prompt ai_response) \<and>
    judge w (length (calls w)) (evaluation_request user_prompt ai_response) = Inr resp \<and>
    choices resp = t # rest \<and>
    written rt (lines_after_call rt resp t) \<and>
    validate_evaluation rt t = Inr (PDict d) \<and>
    map_of d (ascii ''score'') = Some sc \<and>
    map_of d (ascii ''rationale'') = Some ra \<and>
    map_of d (ascii ''hallucination_flag'') = Some (PBool b) \<and>
    written rt (lines_of_success rt ai_response
      (PDict (AList.update (ascii ''tokens'') (PInt (usage_total_tokens resp)) d)) sc ra b) \<longrightarrow>
    (\<exists>v. fst (evaluate_response rt user_prompt ai_response w) = Inr v \<and>
         v = PDict (AList.update (ascii ''tokens'') (PInt (usage_total_tokens resp)) d) \<and>
         py_getitem v (ascii ''rationale'') = Inr ra))"
proof (intro conjI allI impI)
  fix v
  assume a: "fst (evaluate_response rt user_prompt ai_response w) = Inr v"
  from evaluate_response_Inr_cases [OF a] consider
      (fixed) "(\<exists>pattern. v = precheck_verdict pattern) \<or> v = unavailable_verdict \<or>
               (\<exists>n. v = parse_failure_verdict n)"
    | (parsed) resp' t' rest' d' where
        "first_fake_pattern rt user_prompt ai_response = None"
        "judge w (length (calls w)) (evaluation_request user_prompt ai_response) = Inr resp'"
        "choices resp' = t' # rest'"
        "validate_evaluation rt t' = Inr (PDict d')"
        "v = PDict (AList.update (ascii ''tokens'') (PInt (usage_total_tokens resp')) d')"
    by blast
  then show "(\<exists>s. py_getitem v (ascii ''rationale'') = Inr (PStr s) \<and> s \<noteq> []) \<or>
      (\<exists>resp' t' rest' d' ra'.
         first_fake_pattern rt user_prompt ai_response = None \<and>
         judge w (length (calls w)) (evaluation_request user_prompt ai_response) = Inr resp' \<and>
         choices resp' = t' # rest' \<and>
         validate_evaluation rt t' = Inr (PDict d') \<and>
         map_of d' (ascii ''rationale'') = Some ra' \<and>
         v = PDict (AList.update (ascii ''tokens'') (PInt (usage_total_tokens resp')) d') \<and>
         py_getitem v (ascii ''rationale'') = Inr ra')"
  proof cases
    case fixed
    then have "\<exists>s. py_getitem v (ascii ''rationale'') = Inr (PStr s) \<and> s \<noteq> []"
      by (auto simp: precheck_verdict_def unavailable_verdict_def parse_failure_verdict_def
          ascii_def)
    then show ?thesis ..
  next
    case parsed
    from validate_evaluation_Inr [OF parsed(4)] obtain ra' where
      ra: "map_of d' (ascii ''rationale'') = Some ra'"
      by blast
    with parsed(5) have "py_getitem v (ascii ''rationale'') = Inr ra'"
      by (simp add: update_conv')
    with parsed ra show ?thesis by blast
  qed
next
  assume h: "first_fake_pattern rt user_prompt ai_response = None \<and>
    written rt (lines_before_call user_prompt ai_response) \<and>
    judge w (length (calls w)) (evaluation_request user_prompt ai_response) = Inr resp \<and>
    choices resp = t # rest \<and>
    written rt (lines_after_call rt resp t) \<and>
    validate_evaluation rt t = Inr (PDict d) \<and>
    map_of d (ascii ''score'') = Some sc \<and>
    map_of d (ascii ''rationale'') = Some ra \<and>
    map_of d (ascii ''hallucination_flag'') = Some (PBool b) \<and>
    written rt (lines_of_success rt ai_response
      (PDict (AList.update (ascii ''tokens'') (PInt (usage_total_tokens resp)) d)) sc ra b)"
  then have "fst (evaluate_response rt user_prompt ai_response w) =
      Inr (PDict (AList.update (ascii ''tokens'') (PInt (usage_total_tokens resp)) d))"
    by (intro evaluate_response_parsed [where evaluation_text = t and sc = sc and ra = ra and b = b])
       simp_all
  moreover from h have "py_getitem (PDict (AList.update (ascii ''tokens'')
      (PInt (usage_total_tokens resp)) d)) (ascii ''rationale'') = Inr ra"
    by (simp add: update_conv')
  ultimately show "\<exists>v. fst (evaluate_response rt user_prompt ai_response w) = Inr v \<and>
         v = PDict (AList.update (ascii ''tokens'') (PInt (usage_total_tokens resp)) d) \<and>
         py_getitem v (ascii ''rationale'') = Inr ra"
    by blast
qed

theorem rationale_nonempty_or_parsed_witness:
  \<open>fst (evaluate_response
          (python
             [(ascii ''{"score": 2, "rationale": "Too vague", "hallucination_flag": false}'',
               PDict [(ascii ''score'', PInt 2), (ascii ''rationale'', PStr (ascii ''Too vague'')),
                      (ascii ''hallucination_flag'', PBool False)])]
             [(PInt 57, ascii ''57''),
              (PDict [(ascii ''score'', PInt 2), (ascii ''rationale'', PStr (ascii ''Too vague'')),
                      (ascii ''hallucination_flag'', PBool False), (ascii ''tokens'', PInt 57)],
               ascii ''{'score': 2, 'rationale': 'Too vague', 'hallucination_flag': False, 'tokens': 57}'')]
             utf8_stdout)
          (ascii ''What is OSPF?'') (ascii ''OSPF is a link-state routing protocol.'')
          \<lparr>judge = scripted
             [Inr \<lparr>choices =
                     [Some (ascii ''{"score": 2, "rationale": "Too vague", "hallucination_flag": false}'')],
                   usage_total_tokens = 57,
                   as_text = ascii ''{"choices": [...], "usage": {"total_tokens": 57}}''\<rparr>],
           calls = []\<rparr>) =
     Inr (PDict [(ascii ''score'', PInt 2), (ascii ''rationale'', PStr (ascii ''Too vague'')),
                 (ascii ''hallucination_flag'', PBool False), (ascii ''tokens'', PInt 57)]) \<and>
   py_getitem
     (PDict [(ascii ''score'', PInt 2), (ascii ''rationale'', PStr (ascii ''Too vague'')),
             (ascii ''hallucination_flag'', PBool False), (ascii ''tokens'', PInt 57)])
     (ascii ''rationale'') = Inr (PStr (ascii ''Too vague''))\<close>
proof -
  let ?txt = \<open>ascii ''{"score": 2, "rationale": "Too vague", "hallucination_flag": false}''\<close>
  let ?d = "[(ascii ''score'', PInt 2), (ascii ''rationale'', PStr (ascii ''Too vague'')),
             (ascii ''hallucination_flag'', PBool False)]"
  let ?reprs = "[(PInt 57, ascii ''57''),
              (PDict [(ascii ''score'', PInt 2), (ascii ''rationale'', PStr (ascii ''Too vague'')),
                      (ascii ''hallucination_flag'', PBool False), (ascii ''tokens'', PInt 57)],
               ascii ''{'score': 2, 'rationale': 'Too vague', 'hallucination_flag': False, 'tokens': 57}'')]"
  let ?rt = "python [(?txt, PDict ?d)] ?reprs utf8_stdout"
  let ?resp = \<open>\<lparr>choices = [Some ?txt], usage_total_tokens = 57,
                 as_text = ascii ''{"choices": [...], "usage": {"total_tokens": 57}}''\<rparr>\<close>
  let ?w = "\<lparr>judge = scripted [Inr ?resp], calls = []\<rparr>"
  let ?p = "ascii ''What is OSPF?''"
  let ?r = "ascii ''OSPF is a link-state routing protocol.''"
  have m: "first_fake_pattern ?rt ?p ?r = None" by (rule ospf_no_match)
  have b: "written ?rt (lines_before_call ?p ?r)" by (rule ospf_lines_before_call)
  have j: "judge ?w (length (calls ?w)) (evaluation_request ?p ?r) = Inr ?resp"
    by (simp add: scripted_def)
  have c: "choices ?resp = Some ?txt # []" by simp
  have a: "written ?rt (lines_after_call ?rt ?resp (Some ?txt))" by code_simp
  have v: "validate_evaluation ?rt (Some ?txt) = Inr (PDict ?d)" by code_simp
  have k: "map_of ?d (ascii ''score'') = Some (PInt 2)"
    "map_of ?d (ascii ''rationale'') = Some (PStr (ascii ''Too vague''))"
    "map_of ?d (ascii ''hallucination_flag'') = Some (PBool False)"
    by simp_all
  have u: "written ?rt (lines_of_success ?rt ?r
           (PDict (AList.update (ascii ''tokens'') (PInt (usage_total_tokens ?resp)) ?d))
           (PInt 2) (PStr (ascii ''Too vague'')) False)"
    by code_simp
  from rationale_nonempty_or_parsed [of ?rt ?p ?r ?w ?resp "Some ?txt" "[]" ?d "PInt 2"
      "PStr (ascii ''Too vague'')" False] m b j c a v k u
  have "\<exists>x. fst (evaluate_response ?rt ?p ?r ?w) = Inr x \<and>
         x = PDict (AList.update (ascii ''tokens'') (PInt (usage_total_tokens ?resp)) ?d) \<and>
         py_getitem x (ascii ''rationale'') = Inr (PStr (ascii ''Too vague''))"
    by blast
  then show ?thesis by simp
qed

text \<open>
  C8 (counterexample). The claim says that, with no denylist match, the remote judge is
  called exactly once, never zero times. The first two prints of the \<^verbatim>\<open>try\<close> block come
  before the call and write the start of the prompt: for a prompt with a lone surrogate,
  on a stream encoded in UTF-8, the first print raises, no call is made and the
  service-unavailable default is returned.
\<close>

theorem no_call_when_prompt_not_printable:
  "calls (snd (evaluate_response (python [] [] utf8_stdout)
                 (ascii ''What is '' @ [0xD800] @ ascii ''?'') (ascii ''I do not know.'')
                 \<lparr>judge = scripted
                    [Inr \<lparr>choices = [Some (ascii ''not json'')], usage_total_tokens = 57,
                          as_text = ascii ''{}''\<rparr>],
                  calls = []\<rparr>)) = [] \<and>
   fst (evaluate_response (python [] [] utf8_stdout)
          (ascii ''What is '' @ [0xD800] @ ascii ''?'') (ascii ''I do not know.'')
          \<lparr>judge = scripted
             [Inr \<lparr>choices = [Some (ascii ''not json'')], usage_total_tokens = 57,
                   as_text = ascii ''{}''\<rparr>],
           calls = []\<rparr>) =
     Inr (PDict
        [(ascii ''score'', PInt 3),
         (ascii ''rationale'',
            PStr (ascii ''Evaluation service unavailable - assigned neutral score'')),
         (ascii ''hallucination_flag'', PBool False),
         (ascii ''tokens'', PInt 0)])"
  by code_simp

text \<open>
  C8 (as amended). With no denylist match the function sends at most one request to the
  remote judge, whatever the call answers and whatever the parser does with the text:
  exactly one when the stream takes the two lines printed before the call (the log of
  calls grows by the one evaluation request), and none when it does not. There is no
  retry, and the judge itself is untouched.
\<close>

theorem judge_called_at_most_once:
  assumes "first_fake_pattern rt user_prompt ai_response = None"
  shows "(written rt (lines_before_call user_prompt ai_response) \<longrightarrow>
            calls (snd (evaluate_response rt user_prompt ai_response w)) =
              calls w @ [evaluation_request user_prompt ai_response]) \<and>
         (\<not> written rt (lines_before_call user_prompt ai_response) \<longrightarrow>
            calls (snd (evaluate_response rt user_prompt ai_response w)) = calls w) \<and>
         length (calls (snd (evaluate_response rt user_prompt ai_response w))) \<le>
           length (calls w) + 1 \<and>
         judge (snd (evaluate_response rt user_prompt ai_response w)) = judge w"
proof (cases "written rt (lines_before_call user_prompt ai_response)")
  case True
  with assms show ?thesis
    by (simp add: evaluate_response_no_match try_body_written)
next
  case False
  from try_body_not_written [OF this, of w] obtain e where
    "try_body rt user_prompt ai_response w = (Inl e, w)" ..
  with assms False show ?thesis
    by (simp add: evaluate_response_no_match)
qed

theorem judge_called_at_most_once_witness:
  "first_fake_pattern (python [] [] utf8_stdout) (ascii ''What is OSPF?'')
     (ascii ''OSPF is a link-state routing protocol.'') = None \<and>
   written (python [] [] utf8_stdout)
     (lines_before_call (ascii ''What is OSPF?'') (ascii ''OSPF is a link-state routing protocol.'')) \<and>
   calls (snd (evaluate_response (python [] [] utf8_stdout) (ascii ''What is OSPF?'')
                 (ascii ''OSPF is a link-state routing protocol.'')
                 \<lparr>judge = scripted
                    [Inr \<lparr>choices = [Some (ascii ''not json'')], usage_total_tokens = 57,
                          as_text = ascii ''{}''\<rparr>],
                  calls = []\<rparr>)) =
     [evaluation_request (ascii ''What is OSPF?'') (ascii ''OSPF is a link-state routing protocol.'')]"
  using ospf_no_match [of "[]" "[]" utf8_stdout] ospf_lines_before_call [of "[]" "[]"]
    judge_called_at_most_once [OF ospf_no_match, of "[]" "[]" utf8_stdout
      "\<lparr>judge = scripted
          [Inr \<lparr>choices = [Some (ascii ''not json'')], usage_total_tokens = 57,
                as_text = ascii ''{}''\<rparr>],
        calls = []\<rparr>"]
  by simp



text \<open>
  C10 (counterexample). The claim says that an object whose score is the JSON boolean
  \<^verbatim>\<open>true\<close> is returned and not the parse-failure default. Validation accepts it, yet for
  the judge text \<^verbatim>\<open>{"score": true, "rationale": "\udfff", "hallucination_flag": true}\<close>, on a
  stream encoded in UTF-8, the print of the flagged rationale raises
  \<^verbatim>\<open>UnicodeEncodeError\<close> inside the inner \<^verbatim>\<open>try\<close> and the parse-failure default is
  returned.
\<close>

theorem boolean_score_parse_failure:
  \<open>fst (evaluate_response
          (python
             [(ascii ''{"score": true, "rationale": "'' @ [0x5C] @ ascii ''udfff", "hallucination_flag": true}'',
               PDict [(ascii ''score'', PBool True), (ascii ''rationale'', PStr [0xDFFF]),
                      (ascii ''hallucination_flag'', PBool True)])]
             [(PInt 93, ascii ''93''),
              (PDict [(ascii ''score'', PBool True), (ascii ''rationale'', PStr [0xDFFF]),
                      (ascii ''hallucination_flag'', PBool True), (ascii ''tokens'', PInt 93)],
               ascii ''{'score': True, 'rationale': '' @ [0x27, 0x5C] @ ascii ''udfff', 'hallucination_flag': True, 'tokens': 93}'')]
             utf8_stdout)
          (ascii ''What is OSPF?'') (ascii ''OSPF is a link-state routing protocol.'')
          \<lparr>judge = scripted
             [Inr \<lparr>choices =
                     [Some (ascii ''{"score": true, "rationale": "'' @ [0x5C] @ ascii ''udfff", "hallucination_flag": true}'')],
                   usage_total_tokens = 93,
                   as_text = ascii ''{"choices": [...], "usage": {"total_tokens": 93}}''\<rparr>],
           calls = []\<rparr>) =
     Inr (PDict
        [(ascii ''score'', PInt 3),
         (ascii ''rationale'', PStr (ascii ''Evaluation parsing failed - assigned neutral score'')),
         (ascii ''hallucination_flag'', PBool False),
         (ascii ''tokens'', PInt 93)])\<close>
  by code_simp

text \<open>
  C10 (as amended). When the judge's object has the JSON boolean \<^verbatim>\<open>true\<close> as its score
  (with a rationale and a boolean flag), validation accepts it, since
  \<^verbatim>\<open>isinstance(True, int)\<close> holds and \<^verbatim>\<open>1 <= True <= 5\<close>; and when, with no denylist match,
  the stream takes the lines printed on the way, the function returns the object with
  that boolean as score, not the parse-failure default.
\<close>

theorem boolean_score_accepted:
  assumes "strip str \<noteq> []"
    and "json_loads rt str = Inr (PDict d)"
    and "map_of d (ascii ''score'') = Some (PBool True)"
    and "map_of d (ascii ''rationale'') = Some rationale"
    and "map_of d (ascii ''hallucination_flag'') = Some (PBool b)"
  shows "validate_evaluation rt (Some str) = Inr (PDict d) \<and>
         (first_fake_pattern rt user_prompt ai_response = None \<and>
          written rt (lines_before_call user_prompt ai_response) \<and>
          judge w (length (calls w)) (evaluation_request user_prompt ai_response) = Inr resp \<and>
          choices resp = Some str # rest \<and>
          written rt (lines_after_call rt resp (Some str)) \<and>
          written rt (lines_of_success rt ai_response
            (PDict (AList.update (ascii ''tokens'') (PInt (usage_total_tokens resp)) d))
            (PBool True) rationale b) \<longrightarrow>
          fst (evaluate_response rt user_prompt ai_response w) =
            Inr (PDict (AList.update (ascii ''tokens'') (PInt (usage_total_tokens resp)) d)) \<and>
          py_getitem (PDict (AList.update (ascii ''tokens'') (PInt (usage_total_tokens resp)) d))
            (ascii ''score'') = Inr (PBool True) \<and>
          fst (evaluate_response rt user_prompt ai_response w) \<noteq>
            Inr (parse_failure_verdict (usage_total_tokens resp)))"
proof (intro conjI impI)
  show v: "validate_evaluation rt (Some str) = Inr (PDict d)"
    using assms by (intro validate_evaluation_dict [where sc = "PBool True"]) simp_all
  assume h: "first_fake_pattern rt user_prompt ai_response = None \<and>
          written rt (lines_before_call user_prompt ai_response) \<and>
          judge w (length (calls w)) (evaluation_request user_prompt ai_response) = Inr resp \<and>
          choices resp = Some str # rest \<and>
          written rt (lines_after_call rt resp (Some str)) \<and>
          written rt (lines_of_success rt ai_response
            (PDict (AList.update (ascii ''tokens'') (PInt (usage_total_tokens resp)) d))
            (PBool True) rationale b)"
  with v assms(3-5) show r: "fst (evaluate_response rt user_prompt ai_response w) =
      Inr (PDict (AList.update (ascii ''tokens'') (PInt (usage_total_tokens resp)) d))"
    by (intro evaluate_response_parsed [where evaluation_text = "Some str"
          and sc = "PBool True" and ra = rationale and b = b]) simp_all
  from assms(3) show g: "py_getitem (PDict (AList.update (ascii ''tokens'')
        (PInt (usage_total_tokens resp)) d)) (ascii ''score'') = Inr (PBool True)"
    by (simp add: update_conv')
  have p: "py_getitem (parse_failure_verdict (usage_total_tokens resp)) (ascii ''score'') =
           Inr (PInt 3)"
    by (simp add: parse_failure_verdict_def)
  have "PDict (AList.update (ascii ''tokens'') (PInt (usage_total_tokens resp)) d) \<noteq>
        parse_failure_verdict (usage_total_tokens resp)"
  proof
    assume eq: "PDict (AList.update (ascii ''tokens'') (PInt (usage_total_tokens resp)) d) =
                parse_failure_verdict (usage_total_tokens resp)"
    have "py_getitem (PDict (AList.update (ascii ''tokens'') (PInt (usage_total_tokens resp)) d))
            (ascii ''score'') =
          py_getitem (parse_failure_verdict (usage_total_tokens resp)) (ascii ''score'')"
      by (simp only: eq)
    with g p show False
      by (simp del: py_getitem.simps)
  qed
  with r show "fst (evaluate_response rt user_prompt ai_response w) \<noteq>
            Inr (parse_failure_verdict (usage_total_tokens resp))"
    by simp
qed

theorem boolean_score_accepted_witness:
  \<open>strip (ascii ''{"score": true, "rationale": "ok", "hallucination_flag": false}'') \<noteq> [] \<and>
   validate_evaluation
     (python
        [(ascii ''{"score": true, "rationale": "ok", "hallucination_flag": false}'',
          PDict [(ascii ''score'', PBool True), (ascii ''rationale'', PStr (ascii ''ok'')),
                 (ascii ''hallucination_flag'', PBool False)])]
        [(PInt 64, ascii ''64''),
         (PDict [(ascii ''score'', PBool True), (ascii ''rationale'', PStr (ascii ''ok'')),
                 (ascii ''hallucination_flag'', PBool False), (ascii ''tokens'', PInt 64)],
          ascii ''{'score': True, 'rationale': 'ok', 'hallucination_flag': False, 'tokens': 64}'')]
        utf8_stdout)
     (Some (ascii ''{"score": true, "rationale": "ok", "hallucination_flag": false}'')) =
     Inr (PDict [(ascii ''score'', PBool True), (ascii ''rationale'', PStr (ascii ''ok'')),
                 (ascii ''hallucination_flag'', PBool False)]) \<and>
   fst (evaluate_response
          (python
             [(ascii ''{"score": true, "rationale": "ok", "hallucination_flag": false}'',
               PDict [(ascii ''score'', PBool True), (ascii ''rationale'', PStr (ascii ''ok'')),
                      (ascii ''hallucination_flag'', PBool False)])]
             [(PInt 64, ascii ''64''),
              (PDict [(ascii ''score'', PBool True), (ascii ''rationale'', PStr (ascii ''ok'')),
                      (ascii ''hallucination_flag'', PBool False), (ascii ''tokens'', PInt 64)],
               ascii ''{'score': True, 'rationale': 'ok', 'hallucination_flag': False, 'tokens': 64}'')]
             utf8_stdout)
          (ascii ''What is OSPF?'') (ascii ''OSPF is a link-state routing protocol.'')
          \<lparr>judge = scripted
             [Inr \<lparr>choices =
                     [Some (ascii ''{"score": true, "rationale": "ok", "hallucination_flag": false}'')],
                   usage_total_tokens = 64,
                   as_text = ascii ''{"choices": [...], "usage": {"total_tokens": 64}}''\<rparr>],
           calls = []\<rparr>) =
     Inr (PDict [(ascii ''score'', PBool True), (ascii ''rationale'', PStr (ascii ''ok'')),
                 (ascii ''hallucination_flag'', PBool False), (ascii ''tokens'', PInt 64)])\<close>
proof -
  let ?txt = \<open>ascii ''{"score": true, "rationale": "ok", "hallucination_flag": false}''\<close>
  let ?d = "[(ascii ''score'', PBool True), (ascii ''rationale'', PStr (ascii ''ok'')),
             (ascii ''hallucination_flag'', PBool False)]"
  let ?reprs = "[(PInt 64, ascii ''64''),
         (PDict [(ascii ''score'', PBool True), (ascii ''rationale'', PStr (ascii ''ok'')),
                 (ascii ''hallucination_flag'', PBool False), (ascii ''tokens'', PInt 64)],
          ascii ''{'score': True, 'rationale': 'ok', 'hallucination_flag': False, 'tokens': 64}'')]"
  let ?rt = "python [(?txt, PDict ?d)] ?reprs utf8_stdout"
  let ?resp = \<open>\<lparr>choices = [Some ?txt], usage_total_tokens = 64,
                 as_text = ascii ''{"choices": [...], "usage": {"total_tokens": 64}}''\<rparr>\<close>
  let ?w = "\<lparr>judge = scripted [Inr ?resp], calls = []\<rparr>"
  let ?p = "ascii ''What is OSPF?''"
  let ?r = "ascii ''OSPF is a link-state routing protocol.''"
  have s: "strip ?txt \<noteq> []" by code_simp
  have l: "json_loads ?rt ?txt = Inr (PDict ?d)" by (simp add: python_def loads_table_def)
  have k: "map_of ?d (ascii ''score'') = Some (PBool True)"
    "map_of ?d (ascii ''rationale'') = Some (PStr (ascii ''ok''))"
    "map_of ?d (ascii ''hallucination_flag'') = Some (PBool False)"
    by simp_all
  have m: "first_fake_pattern ?rt ?p ?r = None" by (rule ospf_no_match)
  have b: "written ?rt (lines_before_call ?p ?r)" by (rule ospf_lines_before_call)
  have j: "judge ?w (length (calls ?w)) (evaluation_request ?p ?r) = Inr ?resp"
    by (simp add: scripted_def)
  have c: "choices ?resp = Some ?txt # []" by simp
  have a: "written ?rt (lines_after_call ?rt ?resp (Some ?txt))" by code_simp
  have u: "written ?rt (lines_of_success ?rt ?r
           (PDict (AList.update (ascii ''tokens'') (PInt (usage_total_tokens ?resp)) ?d))
           (PBool True) (PStr (ascii ''ok'')) False)"
    by code_simp
  from boolean_score_accepted [OF s l k, of ?p ?r ?w ?resp "[]"] m b j c a u
  have "validate_evaluation ?rt (Some ?txt) = Inr (PDict ?d)"
    and "fst (evaluate_response ?rt ?p ?r ?w) =
          Inr (PDict (AList.update (ascii ''tokens'') (PInt (usage_total_tokens ?resp)) ?d))"
    by blast+
  with s show ?thesis by simp
qed

end
